theory Spec2Isabelle
  imports Complex_Main
begin

section \<open>The crypto monitor hub of \<open>web_monitor.py\<close>\<close>

text \<open>
  The module keeps five globals (the funding table, three bounded deques and the list of
  connected WebSocket clients), runs one coroutine per upstream stream and one per viewer
  connection, and pushes every update to all viewers. The coroutines are modelled as
  functions on a record of the globals; what they await from outside (a message, the outcome
  of a send) is an argument. Tasks are switched at an \<open>await\<close> only. What other tasks do to
  the list of clients while a send of \<open>broadcast_to_clients\<close> is suspended is an argument
  of the broadcast; the passes of the receive loops and the runs of the hub are taken with
  broadcasts that are not interrupted.

  A Python float is modelled by the real number it stands for (the values met here are
  finite), and comparisons between floats and integer constants are the exact ones. The
  product of two floats is the rounded product of the hardware, which is not the product of
  the reals: it is not fixed by the model but given from outside, as \<open>times\<close> of the
  environment below, and every statement about a product holds for each such function.
\<close>

subsection \<open>Exceptions\<close>

text \<open>
  The exceptions that the handlers can meet. All of them are instances of \<open>Exception\<close>, so
  an \<open>except Exception\<close> clause catches each of them. The cancellation of a task, which
  such a clause does not catch, is an event of the reconnect loop below and not a value of
  this type.
\<close>

datatype exc =
    JSONDecodeError | KeyError | ValueError | TypeError | AttributeError | OverflowError
  | ConnectionClosed | OSError | WebSocketDisconnect

subsection \<open>Formatter\<close>

text \<open>
  \<open>format_usd\<close> chooses a suffix and a scale. The result records the branch taken and the
  amount: \<open>Usd_M x\<close> stands for the text of \<open>x / 1_000_000\<close> with two decimals and the
  suffix \<open>M\<close>, \<open>Usd_K x\<close> for the text of \<open>x / 1_000\<close> with one decimal and the suffix
  \<open>K\<close>, \<open>Usd_plain x\<close> for the text of \<open>x\<close> with no decimals. The division and the
  digits are not expanded.
\<close>

datatype usd_text = Usd_M real | Usd_K real | Usd_plain real

definition format_usd :: "real \<Rightarrow> usd_text" where
  "format_usd amount =
     (if amount \<ge> 1000000 then Usd_M amount
      else if amount \<ge> 1000 then Usd_K amount
      else Usd_plain amount)"

definition get_funding_style_class :: "real \<Rightarrow> string" where
  "get_funding_style_class yearly_rate =
     (if yearly_rate > 50 then ''funding-extreme''
      else if yearly_rate > 30 then ''funding-high''
      else if yearly_rate > 5 then ''funding-positive''
      else if yearly_rate < - 10 then ''funding-negative''
      else ''funding-normal'')"

subsection \<open>Strings\<close>

text \<open>
  \<open>str.upper\<close> on the ASCII letters (the stream symbols are ASCII; other characters are left
  as they are) and \<open>str.replace\<close>, which replaces the non-overlapping occurrences of \<open>old\<close>
  from left to right.
\<close>

definition upper_char :: "char \<Rightarrow> char" where
  "upper_char c =
     (case map_of (zip ''abcdefghijklmnopqrstuvwxyz'' ''ABCDEFGHIJKLMNOPQRSTUVWXYZ'') c of
        None \<Rightarrow> c
      | Some u \<Rightarrow> u)"

definition upper :: "string \<Rightarrow> string" where
  "upper s = map upper_char s"

function str_replace :: "string \<Rightarrow> string \<Rightarrow> string \<Rightarrow> string" where
  "str_replace old new s =
     (if old = [] then new @ concat (map (\<lambda>c. c # new) s)
      else if s = [] then []
      else if take (length old) s = old then new @ str_replace old new (drop (length old) s)
      else hd s # str_replace old new (tl s))"
  by pat_completeness auto
termination
  by (relation "measure (\<lambda>(old, new, s). length s)") auto

declare str_replace.simps [simp del]

subsection \<open>Data model\<close>

type_synonym client = nat

record funding_snapshot =
  symbol_display :: string
  funding_rate :: real
  yearly_rate :: real
  style_class :: string

record liquidation =
  lq_symbol :: string
  lq_side :: string
  lq_side_text :: string
  lq_usd_size :: usd_text
  lq_time :: string
  lq_color_class :: string

record trade =
  tr_symbol :: string
  tr_type :: string
  tr_usd_size :: usd_text
  tr_price :: real
  tr_time :: string
  tr_color_class :: string

record whale_alert = trade +
  usd_value :: real
  whale_class :: string
  size_indicator :: string

text \<open>
  \<open>collections.deque\<close> with a \<open>maxlen\<close>: \<open>appendleft\<close> puts the item in front and, when
  the deque has grown beyond \<open>maxlen\<close>, pops the item at the right end.
\<close>

record 'a deque =
  maxlen :: nat
  items :: "'a list"

definition new_deque :: "nat \<Rightarrow> 'a deque" where
  "new_deque n = \<lparr>maxlen = n, items = []\<rparr>"

definition appendleft :: "'a \<Rightarrow> 'a deque \<Rightarrow> 'a deque" where
  "appendleft x d =
     (let ys = x # items d
      in d\<lparr>items := (if length ys > maxlen d then butlast ys else ys)\<rparr>)"

text \<open>A dict keeps insertion order; assigning to a key that is present keeps its place.\<close>

fun dict_setitem :: "'k \<Rightarrow> 'v \<Rightarrow> ('k \<times> 'v) list \<Rightarrow> ('k \<times> 'v) list" where
  "dict_setitem k v [] = [(k, v)]"
| "dict_setitem k v ((k', v') # kvs) =
     (if k' = k then (k', v) # kvs else (k', v') # dict_setitem k v kvs)"

text \<open>\<open>list.remove\<close> deletes the first equal item and raises \<open>ValueError\<close> when there is none.\<close>

fun list_remove :: "'a \<Rightarrow> 'a list \<Rightarrow> exc + 'a list" where
  "list_remove x [] = Inl ValueError"
| "list_remove x (y # ys) =
     (if y = x then Inr ys
      else (case list_remove x ys of Inl e \<Rightarrow> Inl e | Inr zs \<Rightarrow> Inr (y # zs)))"

type_synonym funding_table = "(string \<times> funding_snapshot option) list"

record hub =
  funding_data :: funding_table
  recent_liquidations :: "liquidation deque"
  recent_trades :: "trade deque"
  whale_alerts :: "whale_alert deque"
  connected_clients :: "client list"

definition symbols :: "string list" where
  "symbols = [''btcusdt'', ''ethusdt'', ''solusdt'', ''bnbusdt'', ''dogeusdt'', ''wifusdt'']"

definition initial_hub :: hub where
  "initial_hub =
     \<lparr>funding_data = map (\<lambda>symbol. (symbol, None)) symbols,
      recent_liquidations = new_deque 25,
      recent_trades = new_deque 30,
      whale_alerts = new_deque 15,
      connected_clients = []\<rparr>"

subsection \<open>Events sent to viewers, and what a step does\<close>

datatype payload =
    Initial_data funding_table "liquidation list" "trade list" "whale_alert list"
  | Funding_update funding_table
  | Liquidation_update "liquidation list"
  | Trade_update "trade list"
  | Whale_alert_update "whale_alert list"

text \<open>
  The observable effects of a step, in order: a call of \<open>broadcast_to_clients\<close>, a
  \<open>send_text\<close> that returned, a \<open>logger.error\<close>, an \<open>asyncio.sleep\<close>, and the opening and
  closing of an upstream connection.
\<close>

datatype effect =
    Publish payload
  | Sent client payload
  | Log_error string exc
  | Sleep nat
  | Opened
  | Closed

text \<open>
  A step returns the globals as it leaves them, its effects, and the exception it raised, if
  any: what was mutated before a raise stays mutated.
\<close>

type_synonym result = "hub \<times> effect list \<times> exc option"

text \<open>
  What a step takes from outside: whether \<open>client.send_text\<close> returns for a payload
  (\<open>True\<close>) or raises an \<open>Exception\<close>, and the product of two floats.
\<close>

record env =
  returns :: "client \<Rightarrow> payload \<Rightarrow> bool"
  times :: "real \<Rightarrow> real \<Rightarrow> real"

subsection \<open>Broadcast\<close>

text \<open>
  The first loop of \<open>broadcast_to_clients\<close> walks the list \<open>connected_clients\<close> itself,
  by index, and awaits \<open>send_text\<close> in every pass. While a send is suspended other tasks
  run: a viewer endpoint appends its client, a viewer endpoint or another broadcast removes
  one. What they do to the list during the successive sends of one broadcast is given from
  outside, one list of changes for each send; when the list is used up, the remaining sends
  are not interrupted.
\<close>

datatype registry_change = Joins client | Leaves client

text \<open>
  \<open>Joins\<close> is \<open>connected_clients.append\<close>, \<open>Leaves\<close> is \<open>connected_clients.remove\<close> run by
  the other task; when the client is not in the list the other task gets the \<open>ValueError\<close>
  and the list stays as it is.
\<close>

fun apply_change :: "registry_change \<Rightarrow> client list \<Rightarrow> client list" where
  "apply_change (Joins c) clients = clients @ [c]"
| "apply_change (Leaves c) clients =
     (case list_remove c clients of Inl e \<Rightarrow> clients | Inr clients' \<Rightarrow> clients')"

text \<open>
  The loop from index \<open>i\<close> on: the sends that returned, the list \<open>disconnected\<close>, and
  \<open>connected_clients\<close> as the loop leaves it. The list iterator stops as soon as its index
  is not below the current length.
\<close>

function send_loop ::
  "env \<Rightarrow> payload \<Rightarrow> registry_change list list \<Rightarrow> nat \<Rightarrow> client list
     \<Rightarrow> effect list \<times> client list \<times> client list" where
  "send_loop env data [] i clients =
     (if i < length clients then
        (let (effs, disconnected, final) = send_loop env data [] (Suc i) clients
         in if returns env (clients ! i) data
            then (Sent (clients ! i) data # effs, disconnected, final)
            else (effs, clients ! i # disconnected, final))
      else ([], [], clients))"
| "send_loop env data (changes # during) i clients =
     (if i < length clients then
        (let (effs, disconnected, final) =
               send_loop env data during (Suc i) (fold apply_change changes clients)
         in if returns env (clients ! i) data
            then (Sent (clients ! i) data # effs, disconnected, final)
            else (effs, clients ! i # disconnected, final))
      else ([], [], clients))"
  by pat_completeness auto
termination
  by (relation "measures [\<lambda>(env, data, during, i, clients). length during,
                          \<lambda>(env, data, during, i, clients). length clients - i]")
     auto

declare send_loop.simps [simp del]

text \<open>
  The second loop: \<open>connected_clients.remove(client)\<close> for each disconnected client. It has
  no \<open>await\<close> and runs in one piece.
\<close>

fun remove_each :: "client list \<Rightarrow> client list \<Rightarrow> client list \<times> exc option" where
  "remove_each [] clients = (clients, None)"
| "remove_each (client # rest) clients =
     (case list_remove client clients of
        Inl e \<Rightarrow> (clients, Some e)
      | Inr clients' \<Rightarrow> remove_each rest clients')"

definition broadcast_to_clients ::
  "env \<Rightarrow> registry_change list list \<Rightarrow> payload \<Rightarrow> hub \<Rightarrow> result" where
  "broadcast_to_clients env during data s =
     (if connected_clients s = [] then (s, [Publish data], None)
      else
        (let (effs, disconnected, clients) =
               send_loop env data during 0 (connected_clients s);
             (clients', raised) = remove_each disconnected clients
         in (s\<lparr>connected_clients := clients'\<rparr>, Publish data # effs, raised)))"

subsection \<open>Upstream messages\<close>

text \<open>
  A received text is represented by what the library calls of the handlers return on it:
  \<open>json.loads\<close> raises \<open>JSONDecodeError\<close> (\<open>Not_json\<close>) or returns a value (\<open>Json\<close>), and
  each field of that value holds what the handler's expression on it returns or raises
  (a missing key, \<open>float\<close> or \<open>int\<close> of an unsuitable value, a timestamp that the clock
  rendering rejects). The handlers consult the fields in the order of the source.
\<close>

datatype 'a message = Not_json | Json 'a

text \<open>Mark-price message: \<open>data['s']\<close> as a string, \<open>float(data['r'])\<close>.\<close>

record funding_fields =
  f_s :: "exc + string"
  f_r :: "exc + real"

text \<open>
  Forced-order message: the object under \<open>'o'\<close> with \<open>order_data['s']\<close>,
  \<open>order_data['S']\<close>, \<open>int(order_data['T'])\<close>, \<open>float(order_data['z'])\<close>,
  \<open>float(order_data['p'])\<close>, and the US/Eastern \<open>%H:%M:%S\<close> rendering of the timestamp.
\<close>

record order_fields =
  o_s :: "exc + string"
  o_S :: "exc + string"
  o_T :: "exc + int"
  o_z :: "exc + real"
  o_p :: "exc + real"
  o_time_est :: "exc + string"

type_synonym liquidation_fields = "exc + order_fields"

text \<open>
  Aggregate-trade message: \<open>float(data['p'])\<close>, \<open>float(data['q'])\<close>, \<open>int(data['T'])\<close>,
  the truth value of \<open>data['m']\<close>, and the US/Eastern rendering of the timestamp.
\<close>

record trade_fields =
  t_p :: "exc + real"
  t_q :: "exc + real"
  t_T :: "exc + int"
  t_m :: "exc + bool"
  t_time_est :: "exc + string"

subsection \<open>The bodies of the three receive loops\<close>

text \<open>
  In the bodies and in the runs of the hub built from them, the sends of a broadcast are
  taken uninterrupted: no other task changes the list of clients while the broadcast of the
  body is under way.
\<close>

text \<open>The statements of the inner \<open>try\<close> of \<open>binance_funding_stream\<close> after \<open>recv\<close>.\<close>

definition funding_body :: "env \<Rightarrow> string \<Rightarrow> funding_fields message \<Rightarrow> hub \<Rightarrow> result" where
  "funding_body env symbol message s =
     (case message of
        Not_json \<Rightarrow> (s, [], Some JSONDecodeError)
      | Json data \<Rightarrow>
          (case f_s data of
             Inl e \<Rightarrow> (s, [], Some e)
           | Inr ticker \<Rightarrow>
               (case f_r data of
                  Inl e \<Rightarrow> (s, [], Some e)
                | Inr r \<Rightarrow>
                    (let symbol_display = upper (str_replace ''USDT'' [] ticker);
                         funding_rate = times env r 100;
                         yearly_funding_rate = times env (times env funding_rate 3) 365;
                         s' = s\<lparr>funding_data :=
                                 dict_setitem symbol
                                   (Some \<lparr>symbol_display = symbol_display,
                                          funding_rate = funding_rate,
                                          yearly_rate = yearly_funding_rate,
                                          style_class =
                                            get_funding_style_class yearly_funding_rate\<rparr>)
                                   (funding_data s)\<rparr>
                     in broadcast_to_clients env [] (Funding_update (funding_data s')) s'))))"

text \<open>The dict built for a liquidation that is kept.\<close>

definition make_liquidation :: "string \<Rightarrow> string \<Rightarrow> real \<Rightarrow> string \<Rightarrow> liquidation" where
  "make_liquidation symbol side usd_size time_est =
     \<lparr>lq_symbol = take 4 symbol,
      lq_side = side,
      lq_side_text = (if side = ''SELL'' then ''LONG LIQ'' else ''SHORT LIQ''),
      lq_usd_size = format_usd usd_size,
      lq_time = time_est,
      lq_color_class =
        (if side = ''SELL'' then ''liquidation-long'' else ''liquidation-short'')\<rparr>"

text \<open>The statements of the inner \<open>try\<close> of \<open>binance_liquidation_stream\<close> after \<open>recv\<close>.\<close>

definition liquidation_body :: "env \<Rightarrow> liquidation_fields message \<Rightarrow> hub \<Rightarrow> result" where
  "liquidation_body env msg s =
     (case msg of
        Not_json \<Rightarrow> (s, [], Some JSONDecodeError)
      | Json (Inl e) \<Rightarrow> (s, [], Some e)
      | Json (Inr order_data) \<Rightarrow>
          (case o_s order_data of Inl e \<Rightarrow> (s, [], Some e) | Inr ticker \<Rightarrow>
          (case o_S order_data of Inl e \<Rightarrow> (s, [], Some e) | Inr side \<Rightarrow>
          (case o_T order_data of Inl e \<Rightarrow> (s, [], Some e) | Inr timestamp \<Rightarrow>
          (case o_z order_data of Inl e \<Rightarrow> (s, [], Some e) | Inr filled_quantity \<Rightarrow>
          (case o_p order_data of Inl e \<Rightarrow> (s, [], Some e) | Inr price \<Rightarrow>
          (case o_time_est order_data of Inl e \<Rightarrow> (s, [], Some e) | Inr time_est \<Rightarrow>
            (let symbol = str_replace ''USDT'' [] ticker;
                 usd_size = times env filled_quantity price
             in if usd_size \<ge> 5000 then
                  (let liquidation = make_liquidation symbol side usd_size time_est;
                       s' = s\<lparr>recent_liquidations :=
                               appendleft liquidation (recent_liquidations s)\<rparr>
                   in broadcast_to_clients env []
                        (Liquidation_update (items (recent_liquidations s'))) s')
                else (s, [], None)))))))))"

text \<open>The dict built for a trade that is kept.\<close>

definition make_trade :: "string \<Rightarrow> string \<Rightarrow> real \<Rightarrow> real \<Rightarrow> string \<Rightarrow> trade" where
  "make_trade display_symbol trade_type usd_size price readable_trade_time =
     \<lparr>tr_symbol = take 4 display_symbol,
      tr_type = trade_type,
      tr_usd_size = format_usd usd_size,
      tr_price = price,
      tr_time = readable_trade_time,
      tr_color_class = (if trade_type = ''BUY'' then ''trade-buy'' else ''trade-sell'')\<rparr>"

text \<open>The whale alert made from a trade of at least 100000: a copy with three more keys.\<close>

definition make_whale_alert :: "trade \<Rightarrow> real \<Rightarrow> whale_alert" where
  "make_whale_alert trade usd_size =
     \<lparr>tr_symbol = tr_symbol trade,
      tr_type = tr_type trade,
      tr_usd_size = tr_usd_size trade,
      tr_price = tr_price trade,
      tr_time = tr_time trade,
      tr_color_class = tr_color_class trade,
      usd_value = usd_size,
      whale_class =
        (if usd_size \<ge> 1000000 then ''whale-mega''
         else if usd_size \<ge> 500000 then ''whale-huge''
         else ''whale-big''),
      size_indicator =
        (if usd_size \<ge> 1000000 then ''MEGA''
         else if usd_size \<ge> 500000 then ''HUGE''
         else ''BIG'')\<rparr>"

text \<open>The statements of the inner \<open>try\<close> of \<open>binance_trade_stream\<close> after \<open>recv\<close>.\<close>

definition trade_body :: "env \<Rightarrow> string \<Rightarrow> trade_fields message \<Rightarrow> hub \<Rightarrow> result" where
  "trade_body env symbol message s =
     (case message of
        Not_json \<Rightarrow> (s, [], Some JSONDecodeError)
      | Json data \<Rightarrow>
          (case t_p data of Inl e \<Rightarrow> (s, [], Some e) | Inr price \<Rightarrow>
          (case t_q data of Inl e \<Rightarrow> (s, [], Some e) | Inr quantity \<Rightarrow>
          (case t_T data of Inl e \<Rightarrow> (s, [], Some e) | Inr trade_time \<Rightarrow>
          (case t_m data of Inl e \<Rightarrow> (s, [], Some e) | Inr is_buyer_maker \<Rightarrow>
            (let usd_size = times env price quantity
             in if usd_size \<ge> 15000 then
                  (let trade_type = (if is_buyer_maker then ''SELL'' else ''BUY'')
                   in case t_time_est data of
                        Inl e \<Rightarrow> (s, [], Some e)
                      | Inr readable_trade_time \<Rightarrow>
                          (let display_symbol = str_replace ''USDT'' [] (upper symbol);
                               trade =
                                 make_trade display_symbol trade_type usd_size price
                                   readable_trade_time;
                               s1 = s\<lparr>recent_trades := appendleft trade (recent_trades s)\<rparr>
                           in if usd_size \<ge> 100000 then
                                (let whale_alert = make_whale_alert trade usd_size;
                                     s2 = s1\<lparr>whale_alerts :=
                                              appendleft whale_alert (whale_alerts s1)\<rparr>;
                                     (s3, effs, raised) =
                                        broadcast_to_clients env []
                                          (Whale_alert_update (items (whale_alerts s2))) s2
                                 in case raised of
                                      Some e \<Rightarrow> (s3, effs, Some e)
                                    | None \<Rightarrow>
                                        (let (s4, effs', raised') =
                                               broadcast_to_clients env []
                                                 (Trade_update (items (recent_trades s3))) s3
                                         in (s4, effs @ effs', raised')))
                              else broadcast_to_clients env []
                                     (Trade_update (items (recent_trades s1))) s1))
                else (s, [], None)))))))"

subsection \<open>The exception handlers of the receive loops\<close>

text \<open>
  How one pass through the inner \<open>while True\<close> ends: at the top of the loop again, or
  by \<open>break\<close>. No exception leaves the inner \<open>try\<close>, since its last handler is
  \<open>except Exception\<close>.
\<close>

datatype control = Continue | Break

text \<open>
  \<open>received\<close> is what \<open>await websocket.recv()\<close> does: it raises or returns a text.
  The funding loop has \<open>except json.JSONDecodeError: continue\<close> before
  \<open>except Exception\<close>; the other two loops have \<open>except Exception\<close> alone.
\<close>

definition funding_iteration ::
  "env \<Rightarrow> string \<Rightarrow> exc + funding_fields message \<Rightarrow> hub \<Rightarrow> hub \<times> effect list \<times> control" where
  "funding_iteration env symbol received s =
     (let (s', effs, raised) =
            (case received of
               Inl e \<Rightarrow> (s, [], Some e)
             | Inr message \<Rightarrow> funding_body env symbol message s)
      in case raised of
           None \<Rightarrow> (s', effs, Continue)
         | Some e \<Rightarrow>
             if e = JSONDecodeError then (s', effs, Continue)
             else (s', effs @ [Log_error (''Error in funding stream '' @ symbol) e], Break))"

definition liquidation_iteration ::
  "env \<Rightarrow> exc + liquidation_fields message \<Rightarrow> hub \<Rightarrow> hub \<times> effect list \<times> control" where
  "liquidation_iteration env received s =
     (let (s', effs, raised) =
            (case received of
               Inl e \<Rightarrow> (s, [], Some e)
             | Inr msg \<Rightarrow> liquidation_body env msg s)
      in case raised of
           None \<Rightarrow> (s', effs, Continue)
         | Some e \<Rightarrow>
             (s', effs @ [Log_error ''Error in liquidation stream'' e], Break))"

definition trade_iteration ::
  "env \<Rightarrow> string \<Rightarrow> exc + trade_fields message \<Rightarrow> hub \<Rightarrow> hub \<times> effect list \<times> control" where
  "trade_iteration env symbol received s =
     (let (s', effs, raised) =
            (case received of
               Inl e \<Rightarrow> (s, [], Some e)
             | Inr message \<Rightarrow> trade_body env symbol message s)
      in case raised of
           None \<Rightarrow> (s', effs, Continue)
         | Some e \<Rightarrow>
             (s', effs @ [Log_error (''Error in trade stream '' @ symbol) e], Break))"

subsection \<open>The reconnect loop\<close>

text \<open>
  The outer \<open>while True\<close> is the same in the three stream coroutines:
  \<^verbatim>\<open>
  while True:
      try:
          async with connect(websocket_url) as websocket:
              while True: <one pass>
      except Exception as e:
          logger.error(...)
          await asyncio.sleep(5)
  \<close>
  What happens to the coroutine from outside is a list of events: \<open>connect\<close> raises or
  returns, \<open>recv\<close> raises or returns a text, or the task is cancelled while it waits.
  The coroutine is \<open>Idle\<close> at the top of the outer loop, \<open>Connected\<close> inside the inner
  loop and \<open>Stopped\<close> once the cancellation has left it. Leaving the \<open>async with\<close> block
  closes the connection; closing is taken to succeed. An event that the coroutine is not
  waiting for does not occur and is skipped.
\<close>

datatype 'm feed_event = Open_fails exc | Open_ok | Recv "exc + 'm message" | Cancel

datatype phase = Idle | Connected | Stopped

type_synonym 'm iteration = "exc + 'm message \<Rightarrow> hub \<Rightarrow> hub \<times> effect list \<times> control"

definition stream_step ::
  "string \<Rightarrow> 'm iteration \<Rightarrow> 'm feed_event \<Rightarrow> phase \<times> hub \<Rightarrow> (phase \<times> hub) \<times> effect list" where
  "stream_step label iteration ev st =
     (case (fst st, ev) of
        (Idle, Open_fails e) \<Rightarrow> ((Idle, snd st), [Log_error label e, Sleep 5])
      | (Idle, Open_ok) \<Rightarrow> ((Connected, snd st), [Opened])
      | (Idle, Cancel) \<Rightarrow> ((Stopped, snd st), [])
      | (Connected, Recv received) \<Rightarrow>
          (case iteration received (snd st) of
             (s', effs, Continue) \<Rightarrow> ((Connected, s'), effs)
           | (s', effs, Break) \<Rightarrow> ((Idle, s'), effs @ [Closed]))
      | (Connected, Cancel) \<Rightarrow> ((Stopped, snd st), [Closed])
      | _ \<Rightarrow> (st, []))"

fun stream_run ::
  "string \<Rightarrow> 'm iteration \<Rightarrow> 'm feed_event list \<Rightarrow> phase \<times> hub \<Rightarrow> (phase \<times> hub) \<times> effect list" where
  "stream_run label iteration [] st = (st, [])"
| "stream_run label iteration (ev # evs) st =
     (let (st', effs) = stream_step label iteration ev st;
          (st'', effs') = stream_run label iteration evs st'
      in (st'', effs @ effs'))"

definition binance_funding_stream ::
  "env \<Rightarrow> string \<Rightarrow> funding_fields feed_event list \<Rightarrow> phase \<times> hub \<Rightarrow> (phase \<times> hub) \<times> effect list" where
  "binance_funding_stream env symbol =
     stream_run (''Connection error for funding '' @ symbol) (funding_iteration env symbol)"

definition binance_liquidation_stream ::
  "env \<Rightarrow> liquidation_fields feed_event list \<Rightarrow> phase \<times> hub \<Rightarrow> (phase \<times> hub) \<times> effect list" where
  "binance_liquidation_stream env =
     stream_run ''Liquidation connection error'' (liquidation_iteration env)"

definition binance_trade_stream ::
  "env \<Rightarrow> string \<Rightarrow> trade_fields feed_event list \<Rightarrow> phase \<times> hub \<Rightarrow> (phase \<times> hub) \<times> effect list" where
  "binance_trade_stream env symbol =
     stream_run (''Trade connection error for '' @ symbol) (trade_iteration env symbol)"

subsection \<open>The viewer endpoint\<close>

text \<open>
  \<open>websocket_endpoint\<close> up to its receive loop: \<open>accept\<close>, the append to
  \<open>connected_clients\<close> and the send of the initial data, the last outside any \<open>try\<close>.
  What \<open>accept\<close> and \<open>send_text\<close> do is given from outside.
\<close>

definition websocket_endpoint_open :: "exc + unit \<Rightarrow> exc + unit \<Rightarrow> client \<Rightarrow> hub \<Rightarrow> result" where
  "websocket_endpoint_open accepted sent websocket s =
     (case accepted of
        Inl e \<Rightarrow> (s, [], Some e)
      | Inr _ \<Rightarrow>
          (let s' = s\<lparr>connected_clients := connected_clients s @ [websocket]\<rparr>
           in case sent of
                Inl e \<Rightarrow> (s', [], Some e)
              | Inr _ \<Rightarrow>
                  (s',
                   [Sent websocket
                      (Initial_data (funding_data s') (items (recent_liquidations s'))
                         (items (recent_trades s')) (items (whale_alerts s')))],
                   None)))"

text \<open>
  One pass through the receive loop of \<open>websocket_endpoint\<close>: a text is dropped and the
  loop goes on, \<open>WebSocketDisconnect\<close> runs \<open>connected_clients.remove(websocket)\<close> and
  the coroutine returns or raises what \<open>remove\<close> raised, any other exception leaves the
  coroutine as it is.
\<close>

datatype session = Listening | Returned | Raised exc

definition websocket_endpoint_receive :: "exc + string \<Rightarrow> client \<Rightarrow> hub \<Rightarrow> hub \<times> session" where
  "websocket_endpoint_receive received websocket s =
     (case received of
        Inr text \<Rightarrow> (s, Listening)
      | Inl e \<Rightarrow>
          if e = WebSocketDisconnect then
            (case list_remove websocket (connected_clients s) of
               Inl e' \<Rightarrow> (s, Raised e')
             | Inr clients \<Rightarrow> (s\<lparr>connected_clients := clients\<rparr>, Returned))
          else (s, Raised e))"

subsection \<open>Runs of the whole hub\<close>

text \<open>
  The hub's globals change by the passes of the receive loops and by the viewer
  endpoint. A run is a list of such steps, each with the outcome of the sends made in it.
\<close>

datatype hub_event =
    Funding_recv string "exc + funding_fields message"
  | Liquidation_recv "exc + liquidation_fields message"
  | Trade_recv string "exc + trade_fields message"
  | Viewer_open client "exc + unit" "exc + unit"
  | Viewer_receive client "exc + string"

definition hub_step :: "env \<Rightarrow> hub_event \<Rightarrow> hub \<Rightarrow> hub \<times> effect list" where
  "hub_step env ev s =
     (case ev of
        Funding_recv symbol received \<Rightarrow>
          (let (s', effs, c) = funding_iteration env symbol received s in (s', effs))
      | Liquidation_recv received \<Rightarrow>
          (let (s', effs, c) = liquidation_iteration env received s in (s', effs))
      | Trade_recv symbol received \<Rightarrow>
          (let (s', effs, c) = trade_iteration env symbol received s in (s', effs))
      | Viewer_open websocket accepted sent \<Rightarrow>
          (let (s', effs, raised) = websocket_endpoint_open accepted sent websocket s
           in (s', effs))
      | Viewer_receive websocket received \<Rightarrow>
          (fst (websocket_endpoint_receive received websocket s), []))"

fun hub_run :: "(env \<times> hub_event) list \<Rightarrow> hub \<Rightarrow> hub \<times> effect list" where
  "hub_run [] s = (s, [])"
| "hub_run ((env, ev) # evs) s =
     (let (s', effs) = hub_step env ev s;
          (s'', effs') = hub_run evs s'
      in (s'', effs @ effs'))"

subsection \<open>Notions used in the statements\<close>

text \<open>
  Two environments: every \<open>send_text\<close> returns, every one raises. In both the product of
  two floats is the product of the reals, which is what the hardware gives wherever that
  product is itself a float, as it is for the small whole numbers used with them below.
\<close>

definition every_send_returns :: env where
  "every_send_returns = \<lparr>returns = (\<lambda>client data. True), times = (\<lambda>x y. x * y)\<rparr>"

definition no_send_returns :: env where
  "no_send_returns = \<lparr>returns = (\<lambda>client data. False), times = (\<lambda>x y. x * y)\<rparr>"

text \<open>The send to client 2 raises, every other send returns; products as above.\<close>

definition send_to_2_raises :: env where
  "send_to_2_raises = \<lparr>returns = (\<lambda>client data. client \<noteq> 2), times = (\<lambda>x y. x * y)\<rparr>"

text \<open>The three deques have the capacities they were created with and are not over them.\<close>

definition buffers_bounded :: "hub \<Rightarrow> bool" where
  "buffers_bounded s =
     (maxlen (recent_liquidations s) = 25 \<and> length (items (recent_liquidations s)) \<le> 25
      \<and> maxlen (recent_trades s) = 30 \<and> length (items (recent_trades s)) \<le> 30
      \<and> maxlen (whale_alerts s) = 15 \<and> length (items (whale_alerts s)) \<le> 15)"

text \<open>The payloads that one client was sent, in order.\<close>

fun sent_to :: "client \<Rightarrow> effect list \<Rightarrow> payload list" where
  "sent_to c [] = []"
| "sent_to c (Sent c' data # effs) = (if c' = c then data # sent_to c effs else sent_to c effs)"
| "sent_to c (eff # effs) = sent_to c effs"

text \<open>The step is the opening of the endpoint for this client.\<close>

fun opens :: "client \<Rightarrow> env \<times> hub_event \<Rightarrow> bool" where
  "opens c (env, Viewer_open c' accepted sent) = (c' = c)"
| "opens c (env, ev) = False"

text \<open>The payloads that \<open>broadcast_to_clients\<close> was called with, in order.\<close>

fun published :: "effect list \<Rightarrow> payload list" where
  "published [] = []"
| "published (Publish data # effs) = data # published effs"
| "published (eff # effs) = published effs"

text \<open>Every trade and every whale alert held has a symbol of at most four characters.\<close>

definition symbols_short :: "hub \<Rightarrow> bool" where
  "symbols_short s =
     ((\<forall>t \<in> set (items (recent_trades s)). length (tr_symbol t) \<le> 4)
      \<and> (\<forall>w \<in> set (items (whale_alerts s)). length (tr_symbol w) \<le> 4))"

text \<open>No step of the run is the opening of the endpoint for this client.\<close>

fun never_opened :: "client \<Rightarrow> (env \<times> hub_event) list \<Rightarrow> bool" where
  "never_opened c [] = True"
| "never_opened c (e # es) = (\<not> opens c e \<and> never_opened c es)"

section \<open>Properties\<close>

text \<open>
  C8. The severity class depends on the annualized rate alone: above 50 it is extreme, above
  30 and up to 50 high, above 5 and up to 30 positive, below -10 negative, and normal for
  every other rate; the rates 60, 40, 10, -15 and 0 are classified extreme, high, positive,
  negative and normal.
\<close>

theorem severity_classification:
  "get_funding_style_class r =
     (if r > 50 then ''funding-extreme''
      else if 30 < r \<and> r \<le> 50 then ''funding-high''
      else if 5 < r \<and> r \<le> 30 then ''funding-positive''
      else if r < - 10 then ''funding-negative''
      else ''funding-normal'')
   \<and> get_funding_style_class 60 = ''funding-extreme''
   \<and> get_funding_style_class 40 = ''funding-high''
   \<and> get_funding_style_class 10 = ''funding-positive''
   \<and> get_funding_style_class (- 15) = ''funding-negative''
   \<and> get_funding_style_class 0 = ''funding-normal''"
  by (simp add: get_funding_style_class_def)

subsection \<open>Broadcast\<close>

lemma every_send_returns_simps [simp]:
  "returns every_send_returns c data" "times every_send_returns x y = x * y"
  by (simp_all add: every_send_returns_def)

lemma no_send_returns_simps [simp]:
  "\<not> returns no_send_returns c data" "times no_send_returns x y = x * y"
  by (simp_all add: no_send_returns_def)

lemma send_to_2_raises_simps [simp]:
  "returns send_to_2_raises c data = (c \<noteq> 2)" "times send_to_2_raises x y = x * y"
  by (simp_all add: send_to_2_raises_def)

text \<open>With no other task at work, the loop visits each client from the index on once.\<close>

lemma send_loop_alone:
  "send_loop env data [] i clients =
     (map (\<lambda>c. Sent c data) (filter (\<lambda>c. returns env c data) (drop i clients)),
      filter (\<lambda>c. \<not> returns env c data) (drop i clients),
      clients)"
proof (induction "length clients - i" arbitrary: i)
  case 0
  then show ?case by (simp add: send_loop.simps)
next
  case (Suc n)
  then have i: "i < length clients" and n: "n = length clients - Suc i" by simp_all
  from i have d: "drop i clients = clients ! i # drop (Suc i) clients"
    by (simp add: Cons_nth_drop_Suc)
  from Suc.hyps(1) [OF n] i show ?case
    by (subst send_loop.simps) (simp add: d)
qed

lemma list_remove_first:
  "x \<notin> set pre \<Longrightarrow> list_remove x (pre @ x # rest) = Inr (pre @ rest)"
  by (induction pre) auto

text \<open>
  Removing the clients that failed, one occurrence each and in the order of the list,
  never misses when the list is the one the loop walked: the clients in front of the one
  being removed all succeeded.
\<close>

lemma remove_each_failed:
  "\<forall>c \<in> set pre. ok c \<Longrightarrow>
   remove_each (filter (\<lambda>c. \<not> ok c) clients) (pre @ clients) = (pre @ filter ok clients, None)"
proof (induction clients arbitrary: pre)
  case Nil
  then show ?case by simp
next
  case (Cons c clients)
  show ?case
  proof (cases "ok c")
    case True
    with Cons.prems have "\<forall>x \<in> set (pre @ [c]). ok x" by simp
    from Cons.IH [OF this] True show ?thesis by simp
  next
    case False
    with Cons.prems have "c \<notin> set pre" by auto
    then have "list_remove c (pre @ c # clients) = Inr (pre @ clients)"
      by (rule list_remove_first)
    with False Cons.IH [OF Cons.prems] show ?thesis by simp
  qed
qed

text \<open>
  A broadcast that no other task interrupts sends to exactly the clients whose send
  returns, removes exactly the others and raises nothing.
\<close>

lemma broadcast_to_clients_eq:
  "broadcast_to_clients env [] data s =
     (s\<lparr>connected_clients := filter (\<lambda>c. returns env c data) (connected_clients s)\<rparr>,
      Publish data
        # map (\<lambda>c. Sent c data) (filter (\<lambda>c. returns env c data) (connected_clients s)),
      None)"
proof (cases "connected_clients s = []")
  case True
  then show ?thesis by (simp add: broadcast_to_clients_def)
next
  case False
  have "remove_each (filter (\<lambda>c. \<not> returns env c data) (connected_clients s))
          ([] @ connected_clients s)
        = ([] @ filter (\<lambda>c. returns env c data) (connected_clients s), None)"
    by (rule remove_each_failed) simp
  with False show ?thesis
    by (simp add: broadcast_to_clients_def send_loop_alone)
qed

text \<open>
  C4. Three subscribers are registered and the send to the second raises. When no other
  task runs during the broadcast, the event reaches the first and the third, the second is
  removed and nothing is raised. When the endpoint of the second subscriber handles its
  \<open>WebSocketDisconnect\<close> while the send to it is suspended, the list that the loop walks has
  shrunk under it: the loop ends without visiting the third subscriber, whose send would
  have returned, and the removal of the second, already gone, raises \<open>ValueError\<close> out of
  \<open>broadcast_to_clients\<close>.
\<close>

theorem interrupted_broadcast_skips_and_raises:
  "broadcast_to_clients send_to_2_raises [] (Trade_update [])
     (initial_hub\<lparr>connected_clients := [1, 2, 3]\<rparr>) =
   (initial_hub\<lparr>connected_clients := [1, 3]\<rparr>,
    [Publish (Trade_update []), Sent 1 (Trade_update []), Sent 3 (Trade_update [])], None)
   \<and> connected_clients (fst (websocket_endpoint_receive (Inl WebSocketDisconnect) 2
        (initial_hub\<lparr>connected_clients := [1, 2, 3]\<rparr>))) =
     fold apply_change [Leaves 2] [1, 2, 3]
   \<and> broadcast_to_clients send_to_2_raises [[], [Leaves 2]] (Trade_update [])
        (initial_hub\<lparr>connected_clients := [1, 2, 3]\<rparr>) =
     (initial_hub\<lparr>connected_clients := [1, 3]\<rparr>,
      [Publish (Trade_update []), Sent 1 (Trade_update [])], Some ValueError)"
  by (simp add: broadcast_to_clients_def websocket_endpoint_receive_def send_loop.simps)

subsection \<open>Bounded deques\<close>

lemma maxlen_appendleft [simp]: "maxlen (appendleft x d) = maxlen d"
  by (simp add: appendleft_def Let_def)

lemma items_appendleft:
  "items (appendleft x d) =
     (if length (items d) < maxlen d then x # items d else butlast (x # items d))"
  by (simp add: appendleft_def Let_def)

lemma items_appendleft_take:
  "length (items d) \<le> maxlen d \<Longrightarrow> items (appendleft x d) = take (maxlen d) (x # items d)"
  by (cases "length (items d) < maxlen d") (simp_all add: items_appendleft butlast_conv_take)

lemma length_appendleft:
  "length (items d) \<le> maxlen d \<Longrightarrow> length (items (appendleft x d)) \<le> maxlen d"
  by (simp add: items_appendleft_take)

lemma length_appendleft_le:
  "maxlen d = n \<Longrightarrow> length (items d) \<le> n \<Longrightarrow> length (items (appendleft x d)) \<le> n"
  using length_appendleft [of d x] by simp

lemma fold_appendleft:
  "length (items d) \<le> maxlen d \<Longrightarrow>
   maxlen (fold appendleft xs d) = maxlen d \<and>
   items (fold appendleft xs d) = take (maxlen d) (rev xs @ items d)"
proof (induction xs arbitrary: d)
  case Nil
  then show ?case by simp
next
  case (Cons x xs)
  have "length (items (appendleft x d)) \<le> maxlen (appendleft x d)"
    using Cons.prems by (simp add: length_appendleft)
  from Cons.IH [OF this] Cons.prems show ?case
    by (simp add: items_appendleft_take take_append min_def)
qed

subsection \<open>What a step leaves of the globals\<close>

lemma fst_funding_iteration:
  "fst (funding_iteration env symbol received s) =
     (case received of Inl e \<Rightarrow> s | Inr message \<Rightarrow> fst (funding_body env symbol message s))"
  by (simp add: funding_iteration_def split: sum.splits prod.splits option.splits)

lemma fst_liquidation_iteration:
  "fst (liquidation_iteration env received s) =
     (case received of Inl e \<Rightarrow> s | Inr msg \<Rightarrow> fst (liquidation_body env msg s))"
  by (simp add: liquidation_iteration_def split: sum.splits prod.splits option.splits)

lemma fst_trade_iteration:
  "fst (trade_iteration env symbol received s) =
     (case received of Inl e \<Rightarrow> s | Inr message \<Rightarrow> fst (trade_body env symbol message s))"
  by (simp add: trade_iteration_def split: sum.splits prod.splits option.splits)

lemma fst_hub_step:
  "fst (hub_step env ev s) =
     (case ev of
        Funding_recv symbol received \<Rightarrow> fst (funding_iteration env symbol received s)
      | Liquidation_recv received \<Rightarrow> fst (liquidation_iteration env received s)
      | Trade_recv symbol received \<Rightarrow> fst (trade_iteration env symbol received s)
      | Viewer_open websocket accepted sent \<Rightarrow>
          fst (websocket_endpoint_open accepted sent websocket s)
      | Viewer_receive websocket received \<Rightarrow>
          fst (websocket_endpoint_receive received websocket s))"
  by (simp add: hub_step_def split: hub_event.splits prod.splits)

text \<open>A property that every step keeps holds after every run.\<close>

lemma hub_run_invariant:
  assumes step: "\<And>env ev s. P s \<Longrightarrow> P (fst (hub_step env ev s))"
  shows "P s \<Longrightarrow> P (fst (hub_run evs s))"
proof (induction evs arbitrary: s)
  case Nil
  then show ?case by simp
next
  case (Cons a evs)
  obtain env ev where a: "a = (env, ev)" by (cases a)
  have "P (fst (hub_step env ev s))" using Cons.prems by (rule step)
  then have "P (fst (hub_run evs (fst (hub_step env ev s))))" by (rule Cons.IH)
  then show ?case by (simp add: a case_prod_unfold Let_def)
qed

subsection \<open>The capacities are kept\<close>

lemma funding_body_bounded:
  "buffers_bounded s \<Longrightarrow> buffers_bounded (fst (funding_body env symbol message s))"
  by (simp add: funding_body_def broadcast_to_clients_eq buffers_bounded_def Let_def
           split: message.splits sum.splits)

lemma liquidation_body_bounded:
  "buffers_bounded s \<Longrightarrow> buffers_bounded (fst (liquidation_body env msg s))"
  by (simp add: liquidation_body_def broadcast_to_clients_eq buffers_bounded_def Let_def
           length_appendleft_le
           split: message.splits sum.splits)

lemma trade_body_bounded:
  "buffers_bounded s \<Longrightarrow> buffers_bounded (fst (trade_body env symbol message s))"
  by (simp add: trade_body_def broadcast_to_clients_eq buffers_bounded_def Let_def
           length_appendleft_le
           split: message.splits sum.splits)

lemma endpoint_open_bounded:
  "buffers_bounded s \<Longrightarrow>
   buffers_bounded (fst (websocket_endpoint_open accepted sent websocket s))"
  by (simp add: websocket_endpoint_open_def buffers_bounded_def Let_def split: sum.splits)

lemma endpoint_receive_bounded:
  "buffers_bounded s \<Longrightarrow>
   buffers_bounded (fst (websocket_endpoint_receive received websocket s))"
  by (simp add: websocket_endpoint_receive_def buffers_bounded_def split: sum.splits)

lemma hub_step_bounded:
  "buffers_bounded s \<Longrightarrow> buffers_bounded (fst (hub_step env ev s))"
  by (simp add: fst_hub_step fst_funding_iteration fst_liquidation_iteration fst_trade_iteration
        funding_body_bounded liquidation_body_bounded trade_body_bounded
        endpoint_open_bounded endpoint_receive_bounded
        split: hub_event.splits sum.splits)

lemma initial_hub_bounded: "buffers_bounded initial_hub"
  by (simp add: buffers_bounded_def initial_hub_def new_deque_def)

lemma hub_run_bounded: "buffers_bounded (fst (hub_run evs initial_hub))"
  using hub_step_bounded initial_hub_bounded by (rule hub_run_invariant)

lemma appendleft_at_bound:
  assumes "maxlen d = n" and "length (items d) \<le> n" and "0 < n"
  shows "items (appendleft x d) =
           x # (if length (items d) < n then items d else butlast (items d))"
proof (cases "length (items d) < n")
  case True
  with assms show ?thesis by (simp add: items_appendleft)
next
  case False
  with assms have "items d \<noteq> []" by auto
  with False assms show ?thesis by (simp add: items_appendleft)
qed

text \<open>
  C5. After every run of the hub from its initial state the liquidation deque holds at most
  25 entries, the trade deque at most 30 and the whale deque at most 15. An insertion into
  any of them puts the new entry at the head; below capacity nothing else changes, at
  capacity the last entry, which is the oldest, is dropped and no other. Inserting a
  sequence into an empty deque of capacity \<open>n\<close> leaves the \<open>n\<close> latest entries, newest
  first.
\<close>

theorem bounded_buffers:
  "length (items (recent_liquidations (fst (hub_run evs initial_hub)))) \<le> 25
   \<and> length (items (recent_trades (fst (hub_run evs initial_hub)))) \<le> 30
   \<and> length (items (whale_alerts (fst (hub_run evs initial_hub)))) \<le> 15
   \<and> items (appendleft l (recent_liquidations (fst (hub_run evs initial_hub)))) =
       l # (if length (items (recent_liquidations (fst (hub_run evs initial_hub)))) < 25
            then items (recent_liquidations (fst (hub_run evs initial_hub)))
            else butlast (items (recent_liquidations (fst (hub_run evs initial_hub)))))
   \<and> items (appendleft t (recent_trades (fst (hub_run evs initial_hub)))) =
       t # (if length (items (recent_trades (fst (hub_run evs initial_hub)))) < 30
            then items (recent_trades (fst (hub_run evs initial_hub)))
            else butlast (items (recent_trades (fst (hub_run evs initial_hub)))))
   \<and> items (appendleft w (whale_alerts (fst (hub_run evs initial_hub)))) =
       w # (if length (items (whale_alerts (fst (hub_run evs initial_hub)))) < 15
            then items (whale_alerts (fst (hub_run evs initial_hub)))
            else butlast (items (whale_alerts (fst (hub_run evs initial_hub)))))
   \<and> items (fold appendleft xs (new_deque n)) = take n (rev xs)"
proof -
  let ?s = "fst (hub_run evs initial_hub)"
  have b: "buffers_bounded ?s" by (rule hub_run_bounded)
  have l: "items (appendleft l (recent_liquidations ?s)) =
             l # (if length (items (recent_liquidations ?s)) < 25
                  then items (recent_liquidations ?s)
                  else butlast (items (recent_liquidations ?s)))"
    using b by (intro appendleft_at_bound) (simp_all add: buffers_bounded_def)
  have t: "items (appendleft t (recent_trades ?s)) =
             t # (if length (items (recent_trades ?s)) < 30
                  then items (recent_trades ?s)
                  else butlast (items (recent_trades ?s)))"
    using b by (intro appendleft_at_bound) (simp_all add: buffers_bounded_def)
  have w: "items (appendleft w (whale_alerts ?s)) =
             w # (if length (items (whale_alerts ?s)) < 15
                  then items (whale_alerts ?s)
                  else butlast (items (whale_alerts ?s)))"
    using b by (intro appendleft_at_bound) (simp_all add: buffers_bounded_def)
  have f: "items (fold appendleft xs (new_deque n)) = take n (rev xs)"
    using fold_appendleft [of "new_deque n" xs] by (simp add: new_deque_def)
  from b have "length (items (recent_liquidations ?s)) \<le> 25"
    and "length (items (recent_trades ?s)) \<le> 30"
    and "length (items (whale_alerts ?s)) \<le> 15"
    by (simp_all add: buffers_bounded_def)
  with l t w f show ?thesis by blast
qed

subsection \<open>Messages whose fields are all returned\<close>


lemma trade_body_kept:
  "trade_body env symbol
     (Json \<lparr>t_p = Inr p, t_q = Inr q, t_T = Inr trade_time, t_m = Inr m, t_time_est = Inr tm\<rparr>) s =
   (let usd = times env p q;
        T = make_trade (str_replace ''USDT'' [] (upper symbol)) (if m then ''SELL'' else ''BUY'')
              usd p tm;
        W = make_whale_alert T usd;
        trades = Trade_update (items (appendleft T (recent_trades s)));
        whales = Whale_alert_update (items (appendleft W (whale_alerts s)));
        cs = filter (\<lambda>c. returns env c whales) (connected_clients s)
    in if usd < 15000 then (s, [], None)
       else if usd < 100000 then
         (s\<lparr>recent_trades := appendleft T (recent_trades s),
            connected_clients := filter (\<lambda>c. returns env c trades) (connected_clients s)\<rparr>,
          Publish trades
            # map (\<lambda>c. Sent c trades) (filter (\<lambda>c. returns env c trades) (connected_clients s)),
          None)
       else
         (s\<lparr>recent_trades := appendleft T (recent_trades s),
            whale_alerts := appendleft W (whale_alerts s),
            connected_clients := filter (\<lambda>c. returns env c trades) cs\<rparr>,
          (Publish whales # map (\<lambda>c. Sent c whales) cs)
          @ (Publish trades # map (\<lambda>c. Sent c trades) (filter (\<lambda>c. returns env c trades) cs)),
          None))"
  by (simp add: trade_body_def Let_def broadcast_to_clients_eq not_less)


lemma published_sent [simp]: "published (map (\<lambda>c. Sent c data) cs) = []"
  by (induction cs) simp_all


lemma configured_symbols:
  "map (\<lambda>symbol. take 4 (str_replace ''USDT'' [] (upper symbol))) symbols =
     [''BTC'', ''ETH'', ''SOL'', ''BNB'', ''DOGE'', ''WIF'']"
  by code_simp

lemma symbol_btc: "str_replace ''USDT'' [] (upper ''btcusdt'') = ''BTC''"
  by (simp add: upper_def upper_char_def str_replace.simps)

text \<open>Insertion into the three deques of a state that a run of the hub has reached.\<close>

lemma reached_appendleft:
  "items (appendleft l (recent_liquidations (fst (hub_run evs initial_hub)))) =
     l # (if length (items (recent_liquidations (fst (hub_run evs initial_hub)))) < 25
          then items (recent_liquidations (fst (hub_run evs initial_hub)))
          else butlast (items (recent_liquidations (fst (hub_run evs initial_hub)))))"
  "items (appendleft t (recent_trades (fst (hub_run evs initial_hub)))) =
     t # (if length (items (recent_trades (fst (hub_run evs initial_hub)))) < 30
          then items (recent_trades (fst (hub_run evs initial_hub)))
          else butlast (items (recent_trades (fst (hub_run evs initial_hub)))))"
  "items (appendleft w (whale_alerts (fst (hub_run evs initial_hub)))) =
     w # (if length (items (whale_alerts (fst (hub_run evs initial_hub)))) < 15
          then items (whale_alerts (fst (hub_run evs initial_hub)))
          else butlast (items (whale_alerts (fst (hub_run evs initial_hub)))))"
  using hub_run_bounded [of evs]
  by (intro appendleft_at_bound; simp add: buffers_bounded_def)+




lemma initial_items:
  "items (recent_liquidations initial_hub) = []" "items (recent_trades initial_hub) = []"
  "items (whale_alerts initial_hub) = []"
  by (simp_all add: initial_hub_def new_deque_def)


subsection \<open>Whale alerts\<close>




subsection \<open>Display symbols of trades\<close>

lemma set_items_appendleft: "set (items (appendleft x d)) \<subseteq> insert x (set (items d))"
  by (auto simp: items_appendleft dest: in_set_butlastD)

lemma appendleft_short:
  assumes "\<forall>y \<in> set (items d). length (tr_symbol y) \<le> 4" and "length (tr_symbol x) \<le> 4"
  shows "\<forall>y \<in> set (items (appendleft x d)). length (tr_symbol y) \<le> 4"
  using assms set_items_appendleft [of x d] by auto

lemma tr_symbol_make_trade [simp]:
  "tr_symbol (make_trade display_symbol trade_type usd_size price tm) = take 4 display_symbol"
  by (simp add: make_trade_def)

lemma tr_symbol_make_whale_alert [simp]:
  "tr_symbol (make_whale_alert trade usd_size) = tr_symbol trade"
  by (simp add: make_whale_alert_def)

lemma funding_body_short:
  "symbols_short s \<Longrightarrow> symbols_short (fst (funding_body env symbol message s))"
  by (simp add: funding_body_def broadcast_to_clients_eq symbols_short_def Let_def
           split: message.splits sum.splits)

lemma liquidation_body_short:
  "symbols_short s \<Longrightarrow> symbols_short (fst (liquidation_body env msg s))"
  by (simp add: liquidation_body_def broadcast_to_clients_eq symbols_short_def Let_def
           split: message.splits sum.splits)

lemma recent_trades_trade_body:
  "recent_trades (fst (trade_body env symbol message s)) = recent_trades s
   \<or> (\<exists>ty u p tm.
        recent_trades (fst (trade_body env symbol message s)) =
          appendleft (make_trade (str_replace ''USDT'' [] (upper symbol)) ty u p tm)
            (recent_trades s))"
  by (simp add: trade_body_def broadcast_to_clients_eq Let_def
           split: message.splits sum.splits) blast

lemma whale_alerts_trade_body:
  "whale_alerts (fst (trade_body env symbol message s)) = whale_alerts s
   \<or> (\<exists>ty u p tm.
        whale_alerts (fst (trade_body env symbol message s)) =
          appendleft
            (make_whale_alert (make_trade (str_replace ''USDT'' [] (upper symbol)) ty u p tm) u)
            (whale_alerts s))"
  by (simp add: trade_body_def broadcast_to_clients_eq Let_def
           split: message.splits sum.splits) blast

lemma trade_body_short:
  assumes "symbols_short s"
  shows "symbols_short (fst (trade_body env symbol message s))"
proof -
  have t: "\<forall>t \<in> set (items (recent_trades (fst (trade_body env symbol message s)))).
             length (tr_symbol t) \<le> 4"
    using recent_trades_trade_body [of env symbol message s] assms
    by (auto simp: symbols_short_def dest!: subsetD [OF set_items_appendleft])
  have w: "\<forall>w \<in> set (items (whale_alerts (fst (trade_body env symbol message s)))).
             length (tr_symbol w) \<le> 4"
    using whale_alerts_trade_body [of env symbol message s] assms
    by (auto simp: symbols_short_def dest!: subsetD [OF set_items_appendleft])
  from t w show ?thesis by (simp add: symbols_short_def)
qed

lemma endpoint_open_short:
  "symbols_short s \<Longrightarrow> symbols_short (fst (websocket_endpoint_open accepted sent websocket s))"
  by (simp add: websocket_endpoint_open_def symbols_short_def Let_def split: sum.splits)

lemma endpoint_receive_short:
  "symbols_short s \<Longrightarrow> symbols_short (fst (websocket_endpoint_receive received websocket s))"
  by (simp add: websocket_endpoint_receive_def symbols_short_def split: sum.splits)

lemma hub_step_short:
  "symbols_short s \<Longrightarrow> symbols_short (fst (hub_step env ev s))"
  by (simp add: fst_hub_step fst_funding_iteration fst_liquidation_iteration fst_trade_iteration
        funding_body_short liquidation_body_short trade_body_short
        endpoint_open_short endpoint_receive_short
        split: hub_event.splits sum.splits)

lemma initial_hub_short: "symbols_short initial_hub"
  by (simp add: symbols_short_def initial_hub_def new_deque_def)

lemma hub_run_short: "symbols_short (fst (hub_run evs initial_hub))"
  using hub_step_short initial_hub_short by (rule hub_run_invariant)

text \<open>
  C10. After every run of the hub from its initial state, every trade in the trade deque and
  every whale alert in the whale deque has a symbol of at most four characters. Whatever
  the message, a pass of the trade loop on such a state leaves each of the two deques as it
  was or puts one entry at its head, whose symbol is the first four characters of the
  stream symbol in upper case with \<open>USDT\<close> removed. For the six configured streams these
  symbols are BTC, ETH, SOL, BNB, DOGE and WIF.
\<close>

theorem trade_symbols_truncated:
  "(\<forall>t \<in> set (items (recent_trades (fst (hub_run evs initial_hub)))). length (tr_symbol t) \<le> 4)
   \<and> (\<forall>w \<in> set (items (whale_alerts (fst (hub_run evs initial_hub)))). length (tr_symbol w) \<le> 4)
   \<and> (let s = fst (hub_run evs initial_hub);
           r = trade_body env symbol message s
       in (items (recent_trades (fst r)) = items (recent_trades s)
           \<or> (\<exists>t. items (recent_trades (fst r)) =
                     t # (if length (items (recent_trades s)) < 30
                          then items (recent_trades s)
                          else butlast (items (recent_trades s)))
                   \<and> tr_symbol t = take 4 (str_replace ''USDT'' [] (upper symbol))))
        \<and> (items (whale_alerts (fst r)) = items (whale_alerts s)
           \<or> (\<exists>w. items (whale_alerts (fst r)) =
                     w # (if length (items (whale_alerts s)) < 15
                          then items (whale_alerts s)
                          else butlast (items (whale_alerts s)))
                   \<and> tr_symbol w = take 4 (str_replace ''USDT'' [] (upper symbol)))))
   \<and> map (\<lambda>symbol. take 4 (str_replace ''USDT'' [] (upper symbol))) symbols =
       [''BTC'', ''ETH'', ''SOL'', ''BNB'', ''DOGE'', ''WIF'']"
proof -
  let ?s = "fst (hub_run evs initial_hub)"
  let ?r = "trade_body env symbol message ?s"
  have short: "symbols_short ?s" by (rule hub_run_short)
  have trades:
    "items (recent_trades (fst ?r)) = items (recent_trades ?s)
     \<or> (\<exists>t. items (recent_trades (fst ?r)) =
               t # (if length (items (recent_trades ?s)) < 30
                    then items (recent_trades ?s)
                    else butlast (items (recent_trades ?s)))
             \<and> tr_symbol t = take 4 (str_replace ''USDT'' [] (upper symbol)))"
    using recent_trades_trade_body [of env symbol message ?s]
    by (auto simp: reached_appendleft(2))
  have whales:
    "items (whale_alerts (fst ?r)) = items (whale_alerts ?s)
     \<or> (\<exists>w. items (whale_alerts (fst ?r)) =
               w # (if length (items (whale_alerts ?s)) < 15
                    then items (whale_alerts ?s)
                    else butlast (items (whale_alerts ?s)))
             \<and> tr_symbol w = take 4 (str_replace ''USDT'' [] (upper symbol)))"
    using whale_alerts_trade_body [of env symbol message ?s]
    by (auto simp: reached_appendleft(3))
  from short trades whales configured_symbols show ?thesis
    by (simp add: symbols_short_def Let_def)
qed

lemma btc_run:
  "fst (hub_run
     [(every_send_returns,
       Trade_recv ''btcusdt''
         (Inr (Json \<lparr>t_p = Inr 50000, t_q = Inr 3, t_T = Inr 0, t_m = Inr False,
                      t_time_est = Inr ''12:00:00''\<rparr>)))]
     initial_hub) =
   initial_hub
     \<lparr>recent_trades :=
        \<lparr>maxlen = 30,
         items = [make_trade ''BTC'' ''BUY'' 150000 50000 ''12:00:00'']\<rparr>,
      whale_alerts :=
        \<lparr>maxlen = 15,
         items = [make_whale_alert (make_trade ''BTC'' ''BUY'' 150000 50000 ''12:00:00'') 150000]\<rparr>\<rparr>"
  by (simp add: hub_step_def trade_iteration_def trade_body_kept symbol_btc Let_def
        initial_hub_def new_deque_def appendleft_def)

text \<open>
  A trade of 50000 times 3 on \<open>btcusdt\<close>: both entries carry \<open>BTC\<close>, where the first four
  characters of the upper-case stream symbol are \<open>BTCU\<close>.
\<close>

theorem trade_symbols_truncated_witness:
  "items (recent_trades (fst (hub_run
     [(every_send_returns,
       Trade_recv ''btcusdt''
         (Inr (Json \<lparr>t_p = Inr 50000, t_q = Inr 3, t_T = Inr 0, t_m = Inr False,
                      t_time_est = Inr ''12:00:00''\<rparr>)))]
     initial_hub))) = [make_trade ''BTC'' ''BUY'' 150000 50000 ''12:00:00'']
   \<and> make_trade ''BTC'' ''BUY'' 150000 50000 ''12:00:00''
       \<in> set (items (recent_trades (fst (hub_run
     [(every_send_returns,
       Trade_recv ''btcusdt''
         (Inr (Json \<lparr>t_p = Inr 50000, t_q = Inr 3, t_T = Inr 0, t_m = Inr False,
                      t_time_est = Inr ''12:00:00''\<rparr>)))]
     initial_hub))))
   \<and> tr_symbol (make_trade ''BTC'' ''BUY'' 150000 50000 ''12:00:00'') = ''BTC''
   \<and> length (tr_symbol (make_trade ''BTC'' ''BUY'' 150000 50000 ''12:00:00'')) \<le> 4
   \<and> make_whale_alert (make_trade ''BTC'' ''BUY'' 150000 50000 ''12:00:00'') 150000
       \<in> set (items (whale_alerts (fst (hub_run
     [(every_send_returns,
       Trade_recv ''btcusdt''
         (Inr (Json \<lparr>t_p = Inr 50000, t_q = Inr 3, t_T = Inr 0, t_m = Inr False,
                      t_time_est = Inr ''12:00:00''\<rparr>)))]
     initial_hub))))
   \<and> tr_symbol (make_whale_alert (make_trade ''BTC'' ''BUY'' 150000 50000 ''12:00:00'') 150000) =
       ''BTC''
   \<and> take 4 (str_replace ''USDT'' [] (upper ''btcusdt'')) = ''BTC''
   \<and> take 4 (upper ''btcusdt'') = ''BTCU''"
proof -
  have u: "take 4 (upper ''btcusdt'') = ''BTCU''" by code_simp
  from trade_symbols_truncated
    [of "[(every_send_returns,
       Trade_recv ''btcusdt''
         (Inr (Json \<lparr>t_p = Inr 50000, t_q = Inr 3, t_T = Inr 0, t_m = Inr False,
                      t_time_est = Inr ''12:00:00''\<rparr>)))]"
        every_send_returns "''btcusdt''" Not_json] u
  show ?thesis
    unfolding btc_run by (simp add: symbol_btc)
qed

subsection \<open>What a client is sent\<close>

lemma sent_to_append: "sent_to c (xs @ ys) = sent_to c xs @ sent_to c ys"
  by (induction xs rule: sent_to.induct) simp_all

lemma sent_to_others: "c \<notin> set cs \<Longrightarrow> sent_to c (map (\<lambda>c'. Sent c' data) cs) = []"
  by (induction cs) auto

lemma set_list_remove: "list_remove x xs = Inr ys \<Longrightarrow> set ys \<subseteq> set xs"
  by (induction xs arbitrary: ys) (auto split: if_splits sum.splits)

lemma broadcast_quiet:
  "c \<notin> set (connected_clients s) \<Longrightarrow>
   c \<notin> set (connected_clients (fst (broadcast_to_clients env [] data s)))
   \<and> sent_to c (fst (snd (broadcast_to_clients env [] data s))) = []"
  by (simp add: broadcast_to_clients_eq sent_to_others)

lemma funding_body_quiet:
  "c \<notin> set (connected_clients s) \<Longrightarrow>
   c \<notin> set (connected_clients (fst (funding_body env symbol message s)))
   \<and> sent_to c (fst (snd (funding_body env symbol message s))) = []"
  by (simp add: funding_body_def broadcast_to_clients_eq sent_to_others Let_def
           split: message.splits sum.splits)

lemma liquidation_body_quiet:
  "c \<notin> set (connected_clients s) \<Longrightarrow>
   c \<notin> set (connected_clients (fst (liquidation_body env msg s)))
   \<and> sent_to c (fst (snd (liquidation_body env msg s))) = []"
  by (simp add: liquidation_body_def broadcast_to_clients_eq sent_to_others Let_def
           split: message.splits sum.splits)

lemma trade_body_quiet:
  "c \<notin> set (connected_clients s) \<Longrightarrow>
   c \<notin> set (connected_clients (fst (trade_body env symbol message s)))
   \<and> sent_to c (fst (snd (trade_body env symbol message s))) = []"
  by (simp add: trade_body_def broadcast_to_clients_eq sent_to_others sent_to_append Let_def
           split: message.splits sum.splits)

lemma snd_funding_iteration_quiet:
  "c \<notin> set (connected_clients s) \<Longrightarrow>
   sent_to c (fst (snd (funding_iteration env symbol received s))) = []"
  using funding_body_quiet [of c s env symbol]
  by (simp add: funding_iteration_def sent_to_append case_prod_unfold Let_def
           split: sum.splits option.splits)

lemma snd_liquidation_iteration_quiet:
  "c \<notin> set (connected_clients s) \<Longrightarrow>
   sent_to c (fst (snd (liquidation_iteration env received s))) = []"
  using liquidation_body_quiet [of c s env]
  by (simp add: liquidation_iteration_def sent_to_append case_prod_unfold Let_def
           split: sum.splits option.splits)

lemma snd_trade_iteration_quiet:
  "c \<notin> set (connected_clients s) \<Longrightarrow>
   sent_to c (fst (snd (trade_iteration env symbol received s))) = []"
  using trade_body_quiet [of c s env symbol]
  by (simp add: trade_iteration_def sent_to_append case_prod_unfold Let_def
           split: sum.splits option.splits)

lemma hub_step_quiet:
  assumes "c \<notin> set (connected_clients s)" and "\<not> opens c (env, ev)"
  shows "c \<notin> set (connected_clients (fst (hub_step env ev s)))
         \<and> sent_to c (snd (hub_step env ev s)) = []"
proof (cases ev)
  case (Funding_recv symbol received)
  with assms funding_body_quiet [of c s env symbol]
    snd_funding_iteration_quiet [of c s env symbol received]
  show ?thesis
    by (simp add: hub_step_def fst_funding_iteration case_prod_unfold split: sum.splits)
next
  case (Liquidation_recv received)
  with assms liquidation_body_quiet [of c s env]
    snd_liquidation_iteration_quiet [of c s env received]
  show ?thesis
    by (simp add: hub_step_def fst_liquidation_iteration case_prod_unfold split: sum.splits)
next
  case (Trade_recv symbol received)
  with assms trade_body_quiet [of c s env symbol]
    snd_trade_iteration_quiet [of c s env symbol received]
  show ?thesis
    by (simp add: hub_step_def fst_trade_iteration case_prod_unfold split: sum.splits)
next
  case (Viewer_open websocket accepted sent)
  with assms show ?thesis
    by (simp add: hub_step_def websocket_endpoint_open_def Let_def split: sum.splits)
next
  case (Viewer_receive websocket received)
  with assms show ?thesis
    by (auto simp: hub_step_def websocket_endpoint_receive_def
             split: sum.splits dest: set_list_remove)
qed

lemma hub_run_quiet:
  "c \<notin> set (connected_clients s) \<Longrightarrow> never_opened c evs \<Longrightarrow>
   c \<notin> set (connected_clients (fst (hub_run evs s))) \<and> sent_to c (snd (hub_run evs s)) = []"
proof (induction evs arbitrary: s)
  case Nil
  then show ?case by simp
next
  case (Cons a evs)
  obtain env ev where a: "a = (env, ev)" by (cases a)
  from Cons.prems a have q: "c \<notin> set (connected_clients (fst (hub_step env ev s)))
      \<and> sent_to c (snd (hub_step env ev s)) = []"
    by (intro hub_step_quiet) simp_all
  from Cons.prems have "never_opened c evs" by simp
  with q Cons.IH [of "fst (hub_step env ev s)"] show ?case
    by (simp add: a case_prod_unfold Let_def sent_to_append)
qed

lemma hub_run_append:
  "hub_run (xs @ ys) s =
     (fst (hub_run ys (fst (hub_run xs s))),
      snd (hub_run xs s) @ snd (hub_run ys (fst (hub_run xs s))))"
proof (induction xs arbitrary: s)
  case Nil
  then show ?case by simp
next
  case (Cons a xs)
  obtain env ev where a: "a = (env, ev)" by (cases a)
  show ?case by (simp add: a Cons.IH case_prod_unfold Let_def)
qed

text \<open>
  As long as no broadcast is interrupted: opening the endpoint for a client, with
  \<open>accept\<close> and the send returning, appends the client and sends it the initial data of
  the current state, and on a run in which the endpoint was not opened for the client
  before, that is all it has been sent.
\<close>

lemma join_between_broadcasts:
  assumes "never_opened websocket evs"
  shows "websocket_endpoint_open (Inr ()) (Inr ()) websocket s =
           (s\<lparr>connected_clients := connected_clients s @ [websocket]\<rparr>,
            [Sent websocket
               (Initial_data (funding_data s) (items (recent_liquidations s))
                  (items (recent_trades s)) (items (whale_alerts s)))],
            None)
         \<and> websocket \<in> set (connected_clients (fst (hub_run
               (evs @ [(env, Viewer_open websocket (Inr ()) (Inr ()))]) initial_hub)))
         \<and> sent_to websocket (snd (hub_run
               (evs @ [(env, Viewer_open websocket (Inr ()) (Inr ()))]) initial_hub)) =
             [Initial_data (funding_data (fst (hub_run evs initial_hub)))
                (items (recent_liquidations (fst (hub_run evs initial_hub))))
                (items (recent_trades (fst (hub_run evs initial_hub))))
                (items (whale_alerts (fst (hub_run evs initial_hub))))]"
proof -
  have "websocket \<notin> set (connected_clients initial_hub)" by (simp add: initial_hub_def)
  with assms have "sent_to websocket (snd (hub_run evs initial_hub)) = []"
    using hub_run_quiet [of websocket initial_hub evs] by simp
  then show ?thesis
    by (simp add: hub_run_append hub_step_def websocket_endpoint_open_def Let_def sent_to_append)
qed

text \<open>
  C7. A trade update is being broadcast to client 1, the one client connected, and while
  the send to it is suspended the endpoint is opened for client 2: the client is appended
  and sent the initial data, which hold the trade already. The loop of the broadcast then
  finds client 2 in the list it walks and sends it the trade update as well, an event
  published before the client was registered.
\<close>

theorem join_during_broadcast_is_sent_update:
  "websocket_endpoint_open (Inr ()) (Inr ()) 2
     (initial_hub
        \<lparr>recent_trades :=
           \<lparr>maxlen = 30, items = [make_trade ''BTC'' ''BUY'' 150000 50000 ''12:00:00'']\<rparr>,
         connected_clients := [1]\<rparr>) =
   (initial_hub
      \<lparr>recent_trades :=
         \<lparr>maxlen = 30, items = [make_trade ''BTC'' ''BUY'' 150000 50000 ''12:00:00'']\<rparr>,
       connected_clients := fold apply_change [Joins 2] [1]\<rparr>,
    [Sent 2
       (Initial_data (funding_data initial_hub) []
          [make_trade ''BTC'' ''BUY'' 150000 50000 ''12:00:00''] [])],
    None)
   \<and> broadcast_to_clients every_send_returns [[Joins 2]]
       (Trade_update [make_trade ''BTC'' ''BUY'' 150000 50000 ''12:00:00''])
       (initial_hub
          \<lparr>recent_trades :=
             \<lparr>maxlen = 30, items = [make_trade ''BTC'' ''BUY'' 150000 50000 ''12:00:00'']\<rparr>,
           connected_clients := [1]\<rparr>) =
     (initial_hub
        \<lparr>recent_trades :=
           \<lparr>maxlen = 30, items = [make_trade ''BTC'' ''BUY'' 150000 50000 ''12:00:00'']\<rparr>,
         connected_clients := [1, 2]\<rparr>,
      [Publish (Trade_update [make_trade ''BTC'' ''BUY'' 150000 50000 ''12:00:00'']),
       Sent 1 (Trade_update [make_trade ''BTC'' ''BUY'' 150000 50000 ''12:00:00'']),
       Sent 2 (Trade_update [make_trade ''BTC'' ''BUY'' 150000 50000 ''12:00:00''])],
      None)
   \<and> broadcast_to_clients every_send_returns []
       (Trade_update [make_trade ''BTC'' ''BUY'' 150000 50000 ''12:00:00''])
       (initial_hub
          \<lparr>recent_trades :=
             \<lparr>maxlen = 30, items = [make_trade ''BTC'' ''BUY'' 150000 50000 ''12:00:00'']\<rparr>,
           connected_clients := [1]\<rparr>) =
     (initial_hub
        \<lparr>recent_trades :=
           \<lparr>maxlen = 30, items = [make_trade ''BTC'' ''BUY'' 150000 50000 ''12:00:00'']\<rparr>,
         connected_clients := [1]\<rparr>,
      [Publish (Trade_update [make_trade ''BTC'' ''BUY'' 150000 50000 ''12:00:00'']),
       Sent 1 (Trade_update [make_trade ''BTC'' ''BUY'' 150000 50000 ''12:00:00''])],
      None)"
  by (simp add: websocket_endpoint_open_def broadcast_to_clients_def send_loop.simps
        initial_items initial_hub_def new_deque_def)

subsection \<open>Errors in the receive loops and in the endpoint\<close>

lemma stream_run_single:
  "stream_run label iteration [ev] st = stream_step label iteration ev st"
  by (simp add: case_prod_unfold)

text \<open>
  C2. A text that is not JSON, received while connected: the funding loop drops it and
  stays connected, with the state unchanged and nothing sent or logged. The liquidation
  loop and the trade loop have no handler for the parse failure other than
  \<open>except Exception\<close>: they log the error, leave the receive loop and close the connection.
\<close>

theorem parse_failure_breaks_liquidation_and_trade:
  "binance_funding_stream env symbol [Recv (Inr Not_json)] (Connected, s) =
     ((Connected, s), [])
   \<and> binance_liquidation_stream env [Recv (Inr Not_json)] (Connected, s) =
     ((Idle, s), [Log_error ''Error in liquidation stream'' JSONDecodeError, Closed])
   \<and> binance_trade_stream env symbol [Recv (Inr Not_json)] (Connected, s) =
     ((Idle, s), [Log_error (''Error in trade stream '' @ symbol) JSONDecodeError, Closed])"
  by (simp add: binance_funding_stream_def binance_liquidation_stream_def
        binance_trade_stream_def stream_step_def funding_iteration_def
        liquidation_iteration_def trade_iteration_def funding_body_def liquidation_body_def
        trade_body_def)

text \<open>
  Client 1 joins; then a large trade is published and the send to the client raises, so
  the broadcast removes it.
\<close>

lemma removed_then_disconnect:
  "fst (hub_run
     [(every_send_returns, Viewer_open 1 (Inr ()) (Inr ())),
      (no_send_returns,
       Trade_recv ''btcusdt''
         (Inr (Json \<lparr>t_p = Inr 50000, t_q = Inr 3, t_T = Inr 0, t_m = Inr False,
                      t_time_est = Inr ''12:00:00''\<rparr>)))]
     initial_hub) =
   initial_hub
     \<lparr>recent_trades :=
        \<lparr>maxlen = 30, items = [make_trade ''BTC'' ''BUY'' 150000 50000 ''12:00:00'']\<rparr>,
      whale_alerts :=
        \<lparr>maxlen = 15,
         items = [make_whale_alert (make_trade ''BTC'' ''BUY'' 150000 50000 ''12:00:00'') 150000]\<rparr>\<rparr>"
  by (simp add: hub_step_def websocket_endpoint_open_def trade_iteration_def trade_body_kept
        symbol_btc Let_def initial_hub_def new_deque_def appendleft_def no_send_returns_def)

text \<open>
  C1. After the broadcast has removed the client, its \<open>WebSocketDisconnect\<close> makes the
  endpoint run \<open>connected_clients.remove\<close> on a list that no longer holds it:
  \<open>ValueError\<close> leaves the coroutine. The same removal on a list that holds the client
  returns; run once more on the result it raises.
\<close>

theorem second_unregister_raises:
  "connected_clients (fst (hub_run
     [(every_send_returns, Viewer_open 1 (Inr ()) (Inr ())),
      (no_send_returns,
       Trade_recv ''btcusdt''
         (Inr (Json \<lparr>t_p = Inr 50000, t_q = Inr 3, t_T = Inr 0, t_m = Inr False,
                      t_time_est = Inr ''12:00:00''\<rparr>)))]
     initial_hub)) = []
   \<and> snd (websocket_endpoint_receive (Inl WebSocketDisconnect) 1 (fst (hub_run
     [(every_send_returns, Viewer_open 1 (Inr ()) (Inr ())),
      (no_send_returns,
       Trade_recv ''btcusdt''
         (Inr (Json \<lparr>t_p = Inr 50000, t_q = Inr 3, t_T = Inr 0, t_m = Inr False,
                      t_time_est = Inr ''12:00:00''\<rparr>)))]
     initial_hub))) = Raised ValueError
   \<and> websocket_endpoint_receive (Inl WebSocketDisconnect) 1
       (initial_hub\<lparr>connected_clients := [1]\<rparr>) = (initial_hub, Returned)
   \<and> websocket_endpoint_receive (Inl WebSocketDisconnect) 1 initial_hub =
       (initial_hub, Raised ValueError)"
  unfolding removed_then_disconnect
  by (simp add: websocket_endpoint_receive_def initial_hub_def)

subsection \<open>The reconnect loop\<close>












end
